theory Spec2Isabelle
  imports Complex_Main "HOL-Library.Word"
begin

section \<open>Frames and the conditioning stage\<close>

text \<open>
  A frame is a grid of 8-bit colour pixels (rows of BGR triples, as OpenCV delivers
  them); an edge map is a grid of 8-bit values. Python floats are read as reals, so
  \<^verbatim>\<open>float32\<close> rounding is not part of the model. The colour-space conversions of
  \<^verbatim>\<open>cv2.cvtColor\<close> are library code and appear as the parameters \<open>BGR2HSV\<close> and
  \<open>HSV2BGR\<close>, one pixel to one pixel.
\<close>

type_synonym uint8 = "8 word"
type_synonym pixel = "uint8 \<times> uint8 \<times> uint8"
type_synonym image = "pixel list list"
type_synonym edge_map = "uint8 list list"








section \<open>Edge-density front ends: detection area, event decision, cooldown\<close>

text \<open>
  \<^verbatim>\<open>update_feed\<close> of \<^verbatim>\<open>versions/v3/cc.py\<close> and \<^verbatim>\<open>versions/v3/ccqt.py\<close> masks the Canny edge map
  with four slice assignments:
  \<^verbatim>\<open>edges[:y1, :] = 0; edges[y2:, :] = 0; edges[:, :x1] = 0; edges[:, x2:] = 0\<close>.
  A slice bound \<open>k\<close> on an axis of length \<open>n\<close> is normalised as numpy does: a negative
  bound counts from the end, and the result is clamped to \<open>0..n\<close>; no bound raises.
\<close>

definition slice_bound :: "int \<Rightarrow> nat \<Rightarrow> nat" where
  "slice_bound k n = (if k < 0 then nat (max 0 (int n + k)) else min (nat k) n)"

definition zero_rows :: "(nat \<Rightarrow> bool) \<Rightarrow> edge_map \<Rightarrow> edge_map" where
  "zero_rows sel edges =
     map (\<lambda>(i, row). if sel i then map (\<lambda>_. 0) row else row) (zip [0..<length edges] edges)"

definition zero_cols :: "(nat \<Rightarrow> nat \<Rightarrow> bool) \<Rightarrow> edge_map \<Rightarrow> edge_map" where
  "zero_cols sel edges =
     map (\<lambda>row. map (\<lambda>(j, v). if sel (length row) j then 0 else v) (zip [0..<length row] row))
         edges"

definition apply_detection_area :: "int \<times> int \<times> int \<times> int \<Rightarrow> edge_map \<Rightarrow> edge_map" where
  "apply_detection_area detection_area edges =
     (case detection_area of
        (x1, y1, x2, y2) \<Rightarrow>
          (let e1 = zero_rows (\<lambda>i. i < slice_bound y1 (length edges)) edges;
               e2 = zero_rows (\<lambda>i. slice_bound y2 (length edges) \<le> i) e1;
               e3 = zero_cols (\<lambda>w j. j < slice_bound x1 w) e2;
               e4 = zero_cols (\<lambda>w j. slice_bound x2 w \<le> j) e3
           in e4))"

text \<open>Every entry of an edge map is zero.\<close>

definition all_zero :: "edge_map \<Rightarrow> bool" where
  "all_zero edges \<longleftrightarrow> (\<forall>i < length edges. \<forall>j < length (edges ! i). edges ! i ! j = 0)"

text \<open>\<^verbatim>\<open>np.sum(edges > 0)\<close> and \<^verbatim>\<open>event_detected = np.sum(edges > 0) > threshold\<close>.\<close>

definition count_edges :: "edge_map \<Rightarrow> int" where
  "count_edges edges = int (sum_list (map (\<lambda>row. length (filter (\<lambda>v. 0 < v) row)) edges))"

definition event_detected :: "int \<times> int \<times> int \<times> int \<Rightarrow> int \<Rightarrow> edge_map \<Rightarrow> bool" where
  "event_detected detection_area threshold edges \<longleftrightarrow>
     count_edges (apply_detection_area detection_area edges) > threshold"

text \<open>
  The firing condition of the Tk front ends (\<^verbatim>\<open>cc.py\<close>, \<^verbatim>\<open>cc_110.py\<close>, \<^verbatim>\<open>versions/v3/cc.py\<close>):
  \<^verbatim>\<open>if running and event_detected and (not cooldown_enabled or
  (current_time - last_event_time) > cooldown): handle_event(frame);
  last_event_time = current_time\<close>.
  The result is whether the event fired and the new \<^verbatim>\<open>last_event_time\<close>.
  \<^verbatim>\<open>versions/v3/ccqt.py\<close> has the same condition without \<^verbatim>\<open>running\<close>, which it tests on
  entry to \<^verbatim>\<open>update_feed\<close>.
\<close>

definition cc_fires :: "bool \<Rightarrow> bool \<Rightarrow> bool \<Rightarrow> int \<Rightarrow> real \<Rightarrow> real \<Rightarrow> bool" where
  "cc_fires running detected cooldown_enabled cooldown last_event_time current_time \<longleftrightarrow>
     running \<and> detected \<and>
     (\<not> cooldown_enabled \<or> current_time - last_event_time > real_of_int cooldown)"

definition cc_gate :: "bool \<Rightarrow> bool \<Rightarrow> bool \<Rightarrow> int \<Rightarrow> real \<Rightarrow> real \<Rightarrow> bool \<times> real" where
  "cc_gate running detected cooldown_enabled cooldown last_event_time current_time =
     (if cc_fires running detected cooldown_enabled cooldown last_event_time current_time
      then (True, current_time) else (False, last_event_time))"

definition ccqt_fires :: "bool \<Rightarrow> bool \<Rightarrow> int \<Rightarrow> real \<Rightarrow> real \<Rightarrow> bool" where
  "ccqt_fires detected cooldown_enabled cooldown last_event_time current_time \<longleftrightarrow>
     detected \<and> (\<not> cooldown_enabled \<or> current_time - last_event_time > real_of_int cooldown)"

definition ccqt_gate :: "bool \<Rightarrow> bool \<Rightarrow> int \<Rightarrow> real \<Rightarrow> real \<Rightarrow> bool \<times> real" where
  "ccqt_gate detected cooldown_enabled cooldown last_event_time current_time =
     (if ccqt_fires detected cooldown_enabled cooldown last_event_time current_time
      then (True, current_time) else (False, last_event_time))"

section \<open>Edge-density front ends: the blur kernel\<close>

text \<open>
  \<^verbatim>\<open>versions/v3/ccqt.py\<close> keeps the slider value as it is and makes it odd where the
  kernel is built (\<^verbatim>\<open>gb_val\<close> in \<^verbatim>\<open>update_feed\<close>); \<^verbatim>\<open>versions/v3/cc.py\<close> makes it odd in the
  setter \<^verbatim>\<open>update_gaussian_blur\<close> and passes the global to \<^verbatim>\<open>cv2.GaussianBlur\<close> unchanged.
  Python's \<^verbatim>\<open>%\<close> with a positive divisor is \<open>mod\<close> on \<open>int\<close>.
\<close>

definition gb_val :: "int \<Rightarrow> int" where
  "gb_val gaussian_blur =
     (if gaussian_blur mod 2 = 1 then gaussian_blur else gaussian_blur + 1)"

definition update_gaussian_blur :: "int \<Rightarrow> int" where
  "update_gaussian_blur val = (if val mod 2 = 0 then val + 1 else val)"

section \<open>Saving an event\<close>

text \<open>
  Decimal text of an integer, as an f-string prints it, and \<^verbatim>\<open>int(t)\<close> of a float
  (truncation towards zero).
\<close>

definition digit :: "nat \<Rightarrow> char" where
  "digit d = ''0123456789'' ! d"

function str_nat :: "nat \<Rightarrow> string" where
  "str_nat n = (if n < 10 then [digit n] else str_nat (n div 10) @ [digit (n mod 10)])"
  by pat_completeness auto
termination
  by (relation "measure id") auto

declare str_nat.simps [simp del]

definition str_int :: "int \<Rightarrow> string" where
  "str_int i = (if i < 0 then CHR ''-'' # str_nat (nat (- i)) else str_nat (nat i))"

definition py_int :: "real \<Rightarrow> int" where
  "py_int t = (if t < 0 then \<lceil>t\<rceil> else \<lfloor>t\<rfloor>)"

text \<open>
  What \<^verbatim>\<open>handle_event\<close> is given and what it leaves behind. Drawing is library code
  (\<^verbatim>\<open>cv2.putText\<close>), so a drawn frame is kept symbolically: the frame it was drawn on,
  the text and its origin. \<^verbatim>\<open>cv2.imwrite(filename, frame)\<close> stores the frame it is given
  under the file name.
\<close>

datatype frame = Plain image | PutText frame string "int \<times> int"

type_synonym image_files = "string \<rightharpoonup> frame"



section \<open>Mean-intensity front end: the plot series and the event markers\<close>

text \<open>
  \<^verbatim>\<open>PlotManager\<close> of \<^verbatim>\<open>versions/v3/ccm.py\<close>. The pyqtgraph widgets are left out; what is
  kept is the data the class owns: the two parallel series, the marker lines (an
  \<^verbatim>\<open>InfiniteLine\<close> is its x position), the text labels and the position of the threshold
  line. Python floats are read as reals.
\<close>

record text_item =
  label_text :: string
  label_x :: int
  label_y :: real

record plot_manager =
  xvals :: "int list"
  mean_values :: "real list"
  max_event_lines :: nat
  event_lines :: "int list"
  event_labels :: "text_item list"
  threshold_line :: real

definition plot_manager_init :: "real \<Rightarrow> plot_manager" where
  "plot_manager_init threshold =
     \<lparr>xvals = [], mean_values = [], max_event_lines = 10,
      event_lines = [], event_labels = [], threshold_line = threshold\<rparr>"

definition update_data :: "real \<Rightarrow> real \<Rightarrow> plot_manager \<Rightarrow> plot_manager" where
  "update_data mean_val threshold pm =
     (let xs = (if xvals pm = [] then [0] else xvals pm @ [last (xvals pm) + 1])
      in pm\<lparr>xvals := xs,
             mean_values := mean_values pm @ [mean_val],
             threshold_line := threshold\<rparr>)"

text \<open>Python's \<^verbatim>\<open>max\<close> of a non-empty list.\<close>

definition py_max :: "real list \<Rightarrow> real" where
  "py_max vs = fold max (tl vs) (hd vs)"

definition mark_event :: "string \<Rightarrow> plot_manager \<Rightarrow> plot_manager" where
  "mark_event filename pm =
     (let x_event = (if xvals pm \<noteq> [] then last (xvals pm) else 0);
          lines = event_lines pm @ [x_event];
          mv = mean_values pm;
          local_max = (if length mv \<ge> 10 then py_max (drop (length mv - 10) mv)
                       else (if mv \<noteq> [] then last mv else 0));
          y_pos = (if local_max > 0 then local_max * 1.1 else 10);
          labels = event_labels pm @
                     [\<lparr>label_text = filename, label_x = x_event, label_y = y_pos\<rparr>];
          lines' = (if length lines > max_event_lines pm then tl lines else lines);
          labels' = (if length labels > max_event_lines pm then tl labels else labels)
      in pm\<lparr>event_lines := lines', event_labels := labels'\<rparr>)"

definition clear_plot :: "plot_manager \<Rightarrow> plot_manager" where
  "clear_plot pm = pm\<lparr>xvals := [], mean_values := [], event_lines := [], event_labels := []\<rparr>"

text \<open>Any sequence of calls on one \<^verbatim>\<open>PlotManager\<close>.\<close>

datatype plot_op = UpdateData real real | MarkEvent string | ClearPlot

fun apply_plot_op :: "plot_manager \<Rightarrow> plot_op \<Rightarrow> plot_manager" where
  "apply_plot_op pm (UpdateData mean_val threshold) = update_data mean_val threshold pm"
| "apply_plot_op pm (MarkEvent filename) = mark_event filename pm"
| "apply_plot_op pm ClearPlot = clear_plot pm"

definition run_plot_ops :: "plot_op list \<Rightarrow> plot_manager \<Rightarrow> plot_manager" where
  "run_plot_ops ops pm = foldl apply_plot_op pm ops"

definition series_ok :: "plot_manager \<Rightarrow> bool" where
  "series_ok pm \<longleftrightarrow> xvals pm = map int [0..<length (mean_values pm)]"

section \<open>Mean-intensity front end: handling a frame\<close>

text \<open>
  \<^verbatim>\<open>CameraSettings\<close> (the fields the event logic reads) and the part of the main window
  that \<^verbatim>\<open>handle_new_frame\<close> changes: the settings, the plot, the image files written
  and the log (its lines without the time stamp that \<^verbatim>\<open>log_message\<close> puts in front).
\<close>

record camera_settings =
  threshold_value :: real
  cooldown_time :: int
  last_saved_time :: real
  prefix :: string
  save_images :: bool

record charm_ccm =
  settings :: camera_settings
  plot_mgr :: plot_manager
  saved_images :: image_files
  log_box :: "string list"

text \<open>
  \<^verbatim>\<open>CharmCCM.handle_new_frame\<close> of \<^verbatim>\<open>versions/v3/ccm.py\<close> from \<^verbatim>\<open>self.plot_manager.update_data\<close>
  on. \<open>frame\<close> is the frame after \<open>ccm_video_controls\<close>, \<open>mean_val\<close> is
  \<^verbatim>\<open>np.mean\<close> of its grey image and \<open>current_time\<close> is \<^verbatim>\<open>time.time()\<close>. \<^verbatim>\<open>ccm_100.py\<close> has the
  same statements inline.
\<close>

definition ccm_fires :: "real \<Rightarrow> real \<Rightarrow> int \<Rightarrow> real \<Rightarrow> real \<Rightarrow> bool" where
  "ccm_fires mean_val threshold cooldown last_saved current_time \<longleftrightarrow>
     mean_val > threshold \<and> current_time - last_saved \<ge> real_of_int cooldown"

definition handle_new_frame :: "frame \<Rightarrow> real \<Rightarrow> real \<Rightarrow> charm_ccm \<Rightarrow> charm_ccm" where
  "handle_new_frame frame mean_val current_time w =
     (let w1 = w\<lparr>plot_mgr := update_data mean_val (threshold_value (settings w)) (plot_mgr w)\<rparr>
      in if ccm_fires mean_val (threshold_value (settings w1)) (cooldown_time (settings w1))
               (last_saved_time (settings w1)) current_time
         then (let w2 = w1\<lparr>settings := (settings w1)\<lparr>last_saved_time := current_time\<rparr>\<rparr>
               in if save_images (settings w2)
                  then (let filename =
                              prefix (settings w2) @ ''_'' @ str_int (py_int current_time) @ ''.png''
                        in w2\<lparr>saved_images := (saved_images w2)(filename \<mapsto> frame),
                               log_box := log_box w2 @
                                 [''Event detected and image saved as '' @ [CHR 0x27] @
                                  filename @ [CHR 0x27] @ ''.''],
                               plot_mgr := mark_event filename (plot_mgr w2)\<rparr>)
                  else w2)
         else w1)"

text \<open>A run of the window over the frames the camera thread delivers.\<close>

fun run_frames :: "(frame \<times> real \<times> real) list \<Rightarrow> charm_ccm \<Rightarrow> charm_ccm" where
  "run_frames [] w = w"
| "run_frames ((frame, mean_val, current_time) # rest) w =
     run_frames rest (handle_new_frame frame mean_val current_time w)"



section \<open>Presets\<close>

text \<open>
  The tunable globals are untyped Python variables, and \<^verbatim>\<open>load_preset\<close> stores in them
  whatever the JSON file holds. They are modelled as Python values: the values
  \<^verbatim>\<open>json.dump\<close> writes and \<^verbatim>\<open>json.load\<close> returns. A dictionary is a list of entries with
  distinct keys, in insertion order.
\<close>

datatype pyval =
    PyNone
  | PyBool bool
  | PyInt int
  | PyFloat real
  | PyStr string
  | PyList "pyval list"
  | PyDict "(string \<times> pyval) list"

datatype py_error = KeyError string | TypeError | AttributeError | JSONDecodeError | PermissionError

text \<open>\<^verbatim>\<open>d[key]\<close> with a string key, and \<^verbatim>\<open>d.get(key, default)\<close>.\<close>

fun subscript :: "pyval \<Rightarrow> string \<Rightarrow> py_error + pyval" where
  "subscript (PyDict entries) key =
     (case map_of entries key of None \<Rightarrow> Inl (KeyError key) | Some v \<Rightarrow> Inr v)"
| "subscript _ key = Inl TypeError"

fun dict_get :: "pyval \<Rightarrow> string \<Rightarrow> pyval \<Rightarrow> py_error + pyval" where
  "dict_get (PyDict entries) key dflt =
     (case map_of entries key of None \<Rightarrow> Inr dflt | Some v \<Rightarrow> Inr v)"
| "dict_get _ key dflt = Inl AttributeError"

text \<open>
  A preset file: text that \<^verbatim>\<open>json.load\<close> parses to a value, text on which it raises
  \<^verbatim>\<open>JSONDecodeError\<close>, or a file that \<^verbatim>\<open>open\<close> cannot read. \<^verbatim>\<open>json.dump\<close> followed by
  \<^verbatim>\<open>json.load\<close> is taken to return the value written.
\<close>

datatype preset_file = JsonText pyval | NotJson | Unreadable

type_synonym preset_files = "string \<rightharpoonup> preset_file"

text \<open>
  The globals a preset holds in \<^verbatim>\<open>cc_110.py\<close>, and the two more of
  \<^verbatim>\<open>versions/v3\<close>.
\<close>

record params =
  threshold :: pyval
  low_threshold :: pyval
  high_threshold :: pyval
  contrast :: pyval
  brightness :: pyval
  saturation :: pyval
  black_point :: pyval
  cooldown :: pyval
  cooldown_enabled :: pyval
  filename_prefix :: pyval

record params_v3 = params +
  detection_area :: pyval
  gaussian_blur :: pyval

text \<open>
  A sequence of assignment statements, each of which may raise: execution stops at the
  first error and keeps the variables as the earlier statements left them.
\<close>

fun exec :: "('g \<Rightarrow> py_error + 'g) list \<Rightarrow> 'g \<Rightarrow> py_error option \<times> 'g" where
  "exec [] g = (None, g)"
| "exec (stmt # rest) g = (case stmt g of Inl e \<Rightarrow> (Some e, g) | Inr g' \<Rightarrow> exec rest g')"

text \<open>The statement \<^verbatim>\<open>var = loaded[key]\<close>, with \<open>store\<close> writing the variable.\<close>

definition assign_from ::
  "pyval \<Rightarrow> string \<Rightarrow> (pyval \<Rightarrow> 'g \<Rightarrow> 'g) \<Rightarrow> 'g \<Rightarrow> py_error + 'g" where
  "assign_from loaded key store g =
     (case subscript loaded key of Inl e \<Rightarrow> Inl e | Inr v \<Rightarrow> Inr (store v g))"

text \<open>The ten assignments that open every \<^verbatim>\<open>load_preset\<close>, in the order of the source.\<close>

definition load_common :: "pyval \<Rightarrow> ('a params_scheme \<Rightarrow> py_error + 'a params_scheme) list" where
  "load_common loaded =
     [assign_from loaded ''threshold'' (\<lambda>v g. g\<lparr>threshold := v\<rparr>),
      assign_from loaded ''low_threshold'' (\<lambda>v g. g\<lparr>low_threshold := v\<rparr>),
      assign_from loaded ''high_threshold'' (\<lambda>v g. g\<lparr>high_threshold := v\<rparr>),
      assign_from loaded ''contrast'' (\<lambda>v g. g\<lparr>contrast := v\<rparr>),
      assign_from loaded ''brightness'' (\<lambda>v g. g\<lparr>brightness := v\<rparr>),
      assign_from loaded ''saturation'' (\<lambda>v g. g\<lparr>saturation := v\<rparr>),
      assign_from loaded ''black_point'' (\<lambda>v g. g\<lparr>black_point := v\<rparr>),
      assign_from loaded ''cooldown'' (\<lambda>v g. g\<lparr>cooldown := v\<rparr>),
      assign_from loaded ''cooldown_enabled'' (\<lambda>v g. g\<lparr>cooldown_enabled := v\<rparr>),
      assign_from loaded ''filename_prefix'' (\<lambda>v g. g\<lparr>filename_prefix := v\<rparr>)]"


datatype outcome = Loaded | NotFound | NoSelection | Raised py_error

text \<open>
  Opening and parsing \<^verbatim>\<open>{name}.json\<close>, then running the assignments. Only
  \<^verbatim>\<open>FileNotFoundError\<close> is caught (and logged); every other exception leaves
  \<^verbatim>\<open>load_preset\<close> with the variables as they are at that moment. The widget updates that
  follow the assignments are not modelled.
\<close>

definition load_with ::
  "(pyval \<Rightarrow> ('g \<Rightarrow> py_error + 'g) list) \<Rightarrow> string \<Rightarrow> preset_files \<Rightarrow> 'g \<Rightarrow> outcome \<times> 'g" where
  "load_with assignments name files g =
     (case files (name @ ''.json'') of
        None \<Rightarrow> (NotFound, g)
      | Some Unreadable \<Rightarrow> (Raised PermissionError, g)
      | Some NotJson \<Rightarrow> (Raised JSONDecodeError, g)
      | Some (JsonText loaded) \<Rightarrow>
          (case exec (assignments loaded) g of
             (None, g') \<Rightarrow> (Loaded, g')
           | (Some e, g') \<Rightarrow> (Raised e, g')))"

subsection \<open>\<^verbatim>\<open>cc_110.py\<close>\<close>


definition cc110_load_preset :: "string \<Rightarrow> preset_files \<Rightarrow> params \<Rightarrow> outcome \<times> params" where
  "cc110_load_preset preset_name files g = load_with load_common preset_name files g"

subsection \<open>\<^verbatim>\<open>versions/v3/ccqt.py\<close>\<close>



definition ccqt_load_assignments :: "pyval \<Rightarrow> (params_v3 \<Rightarrow> py_error + params_v3) list" where
  "ccqt_load_assignments loaded =
     load_common loaded @
     [assign_from loaded ''detection_area'' (\<lambda>v g. g\<lparr>detection_area := v\<rparr>),
      (\<lambda>g. case dict_get loaded ''gaussian_blur'' (PyInt 5) of
              Inl e \<Rightarrow> Inl e
            | Inr v \<Rightarrow> Inr (g\<lparr>gaussian_blur := v\<rparr>))]"

definition ccqt_load_preset :: "string \<Rightarrow> preset_files \<Rightarrow> params_v3 \<Rightarrow> outcome \<times> params_v3" where
  "ccqt_load_preset load_name files g =
     (if load_name = [] then (NoSelection, g)
      else load_with ccqt_load_assignments load_name files g)"

subsection \<open>\<^verbatim>\<open>versions/v3/cc.py\<close>\<close>



definition v3cc_load_assignments :: "pyval \<Rightarrow> (params_v3 \<Rightarrow> py_error + params_v3) list" where
  "v3cc_load_assignments loaded =
     load_common loaded @
     [assign_from loaded ''detection_area'' (\<lambda>v g. g\<lparr>detection_area := v\<rparr>)]"

definition v3cc_load_preset :: "string \<Rightarrow> preset_files \<Rightarrow> params_v3 \<Rightarrow> outcome \<times> params_v3" where
  "v3cc_load_preset name files g = load_with v3cc_load_assignments name files g"


text \<open>The module-level initial values of the globals.\<close>

definition cc110_defaults :: params where
  "cc110_defaults =
     \<lparr>threshold = PyInt 1000, low_threshold = PyInt 50, high_threshold = PyInt 150,
      contrast = PyFloat 1, brightness = PyInt 0, saturation = PyFloat 1,
      black_point = PyInt 0, cooldown = PyInt 5, cooldown_enabled = PyBool True,
      filename_prefix = PyStr ''event''\<rparr>"

definition ccqt_defaults :: params_v3 where
  "ccqt_defaults =
     \<lparr>threshold = PyInt 1000, low_threshold = PyInt 50, high_threshold = PyInt 150,
      contrast = PyFloat 1, brightness = PyInt 0, saturation = PyFloat 1,
      black_point = PyInt 0, cooldown = PyInt 5, cooldown_enabled = PyBool True,
      filename_prefix = PyStr ''event'',
      detection_area = PyList [PyInt 0, PyInt 0, PyInt 960, PyInt 640],
      gaussian_blur = PyInt 5\<rparr>"

section \<open>Properties\<close>

subsection \<open>Identity conditioning\<close>







subsection \<open>Detection area\<close>

lemma length_zero_rows: "length (zero_rows sel edges) = length edges"
  by (simp add: zero_rows_def)

lemma nth_zero_rows:
  "i < length edges \<Longrightarrow>
     zero_rows sel edges ! i = (if sel i then map (\<lambda>_. 0) (edges ! i) else edges ! i)"
  by (simp add: zero_rows_def)

lemma length_zero_cols: "length (zero_cols sel edges) = length edges"
  by (simp add: zero_cols_def)

lemma length_nth_zero_cols:
  "i < length edges \<Longrightarrow> length (zero_cols sel edges ! i) = length (edges ! i)"
  by (simp add: zero_cols_def)

lemma nth_nth_zero_cols:
  "i < length edges \<Longrightarrow> j < length (edges ! i) \<Longrightarrow>
     zero_cols sel edges ! i ! j = (if sel (length (edges ! i)) j then 0 else edges ! i ! j)"
  by (simp add: zero_cols_def)

lemma slice_bound_cover:
  assumes "b < a" and "0 \<le> b" and "i < n"
  shows "i < slice_bound a n \<or> slice_bound b n \<le> i"
  using assms by (auto simp: slice_bound_def)

lemma all_zero_zero_cols: "all_zero edges \<Longrightarrow> all_zero (zero_cols sel edges)"
  by (simp add: all_zero_def length_zero_cols length_nth_zero_cols nth_nth_zero_cols)

lemma all_zero_rows_masked:
  assumes "\<And>i. i < length edges \<Longrightarrow> P i \<or> Q i"
  shows "all_zero (zero_rows Q (zero_rows P edges))"
  using assms
  by (auto simp: all_zero_def length_zero_rows nth_zero_rows)

lemma all_zero_cols_masked:
  assumes "\<And>w j. j < w \<Longrightarrow> P w j \<or> Q w j"
  shows "all_zero (zero_cols Q (zero_cols P edges))"
  using assms
  by (auto simp: all_zero_def length_zero_cols length_nth_zero_cols nth_nth_zero_cols)

lemma count_edges_all_zero:
  assumes "all_zero edges"
  shows "count_edges edges = 0"
proof -
  have "filter (\<lambda>v. 0 < v) row = []" if "row \<in> set edges" for row
  proof -
    from that obtain i where i: "i < length edges" "row = edges ! i"
      by (auto simp: in_set_conv_nth)
    have "v = 0" if "v \<in> set row" for v
    proof -
      from that obtain j where "j < length row" "v = row ! j"
        by (auto simp: in_set_conv_nth)
      with i assms show ?thesis by (simp add: all_zero_def)
    qed
    then show ?thesis by (auto simp: filter_empty_conv)
  qed
  then have "map (\<lambda>row. length (filter (\<lambda>v. 0 < v) row)) edges = map (\<lambda>row. 0) edges"
    by (intro map_cong) simp_all
  then show ?thesis
    by (simp add: count_edges_def sum_list_0)
qed

lemma shape_apply_detection_area:
  "map length (apply_detection_area (x1, y1, x2, y2) edges) = map length edges"
  by (rule nth_equalityI)
     (simp_all add: apply_detection_area_def Let_def length_zero_cols length_zero_rows
        length_nth_zero_cols nth_zero_rows)

lemma inverted_area_all_zero:
  assumes "(x2 < x1 \<and> 0 \<le> x2) \<or> (y2 < y1 \<and> 0 \<le> y2)"
  shows "all_zero (apply_detection_area (x1, y1, x2, y2) edges)"
  using assms
proof
  assume "x2 < x1 \<and> 0 \<le> x2"
  then show ?thesis
    unfolding apply_detection_area_def Let_def prod.case
    by (intro all_zero_cols_masked slice_bound_cover) simp_all
next
  assume "y2 < y1 \<and> 0 \<le> y2"
  then have "all_zero (zero_rows (\<lambda>i. slice_bound y2 (length edges) \<le> i)
                        (zero_rows (\<lambda>i. i < slice_bound y1 (length edges)) edges))"
    by (intro all_zero_rows_masked slice_bound_cover) simp_all
  then show ?thesis
    unfolding apply_detection_area_def Let_def prod.case
    by (intro all_zero_zero_cols)
qed

text \<open>
  Outside the sliders' range the slices do not cover the map: a negative \<open>x2\<close> counts
  from the right edge.
\<close>

lemma negative_bound_keeps_columns:
  "apply_detection_area (0, 0, - 1, 2) [[255, 255, 255], [255, 255, 255]]
     = [[255, 255, 0], [255, 255, 0]]"
  by (simp add: apply_detection_area_def zero_rows_def zero_cols_def slice_bound_def Let_def
      upt_rec)

text \<open>
  Claim C2. For a detection area whose coordinates are in the sliders' range (none
  negative) and that is inverted (x1 > x2 or y1 > y2), the masked edge map is zero
  everywhere, whatever the edge map was: the edge count is 0 and, for a count
  threshold that is not negative, no event is detected. The mask keeps the shape of the
  map and has no failing case.
\<close>

theorem inverted_detection_area_empty:
  assumes "0 \<le> x1" and "0 \<le> y1" and "0 \<le> x2" and "0 \<le> y2"
    and "x1 > x2 \<or> y1 > y2"
    and "0 \<le> th"
  shows "all_zero (apply_detection_area (x1, y1, x2, y2) edges)
       \<and> map length (apply_detection_area (x1, y1, x2, y2) edges) = map length edges
       \<and> count_edges (apply_detection_area (x1, y1, x2, y2) edges) = 0
       \<and> \<not> event_detected (x1, y1, x2, y2) th edges"
proof -
  from assms have "(x2 < x1 \<and> 0 \<le> x2) \<or> (y2 < y1 \<and> 0 \<le> y2)" by blast
  then have z: "all_zero (apply_detection_area (x1, y1, x2, y2) edges)"
    by (rule inverted_area_all_zero)
  then have c: "count_edges (apply_detection_area (x1, y1, x2, y2) edges) = 0"
    by (rule count_edges_all_zero)
  with \<open>0 \<le> th\<close> have "\<not> event_detected (x1, y1, x2, y2) th edges"
    by (simp add: event_detected_def)
  with z c shape_apply_detection_area show ?thesis by blast
qed

theorem inverted_detection_area_empty_witness:
  "count_edges (apply_detection_area (2, 0, 1, 2) [[255, 0, 255], [0, 255, 255]]) = 0
   \<and> \<not> event_detected (2, 0, 1, 2) 100 [[255, 0, 255], [0, 255, 255]]
   \<and> count_edges [[255, 0, 255], [0, 255, 255]] = 4"
  using inverted_detection_area_empty [of 2 0 1 2 100 "[[255, 0, 255], [0, 255, 255]]"]
  by (simp add: count_edges_def)

subsection \<open>Cooldown\<close>

text \<open>
  The mean-intensity front ends compare with \<open>\<ge>\<close>: with a cooldown of 5 and the last
  event at 0, a frame above the threshold at exactly t = 5 fires.
\<close>

theorem cooldown_fires_at_boundary_ccm:
  "ccm_fires 200 128 5 0 5 \<and> \<not> ccm_fires 200 128 5 0 4.999"
  by (simp add: ccm_fires_def)

text \<open>
  Claim C1, as amended. With the cooldown enabled, the edge-density front ends
  (\<^verbatim>\<open>cc.py\<close>, \<^verbatim>\<open>cc_110.py\<close>, \<^verbatim>\<open>versions/v3/cc.py\<close>, \<^verbatim>\<open>versions/v3/ccqt.py\<close>) fire a
  criterion-met frame if and only if \<open>now - last_event_time > cooldown\<close>, strictly: with
  a cooldown of 5 and the last event at 0 they do not fire for t in (0, 5], t = 5
  included, and fire for every t > 5. The mean-intensity front ends (\<^verbatim>\<open>ccm_100.py\<close>,
  \<^verbatim>\<open>versions/v3/ccm.py\<close>) fire if and only if \<open>now - last_saved_time \<ge> cooldown_time\<close>:
  they do not fire for t in (0, 5) and fire from t = 5 on.
\<close>

theorem cooldown_comparisons:
  "(cc_fires True True True c l t \<longleftrightarrow> t - l > real_of_int c)
   \<and> (ccqt_fires True True c l t \<longleftrightarrow> t - l > real_of_int c)
   \<and> (0 < t \<and> t \<le> 5 \<longrightarrow>
        cc_gate True True True 5 0 t = (False, 0) \<and> ccqt_gate True True 5 0 t = (False, 0))
   \<and> (5 < t \<longrightarrow>
        cc_gate True True True 5 0 t = (True, t) \<and> ccqt_gate True True 5 0 t = (True, t))
   \<and> (th < m \<longrightarrow> (ccm_fires m th c l t \<longleftrightarrow> t - l \<ge> real_of_int c))
   \<and> (0 < t \<and> t < 5 \<longrightarrow> \<not> ccm_fires m th 5 0 t)
   \<and> (th < m \<and> 5 \<le> t \<longrightarrow> ccm_fires m th 5 0 t)"
  by (simp add: cc_fires_def ccqt_fires_def cc_gate_def ccqt_gate_def ccm_fires_def)

theorem cooldown_comparisons_witness:
  "cc_gate True True True 5 0 5 = (False, 0) \<and> ccqt_gate True True 5 0 5 = (False, 0)
   \<and> cc_gate True True True 5 0 5.001 = (True, 5.001)
   \<and> ccqt_gate True True 5 0 5.001 = (True, 5.001)
   \<and> \<not> ccm_fires 200 128 5 0 3 \<and> ccm_fires 200 128 5 0 5"
  using cooldown_comparisons [of 5 0 5 128 200] cooldown_comparisons [of 5 0 "5.001" 128 200]
    cooldown_comparisons [of 5 0 3 128 200]
  by simp

subsection \<open>The blur kernel\<close>

lemma gb_val_cases: "gb_val k = (if even k then k + 1 else k)"
proof (cases "even k")
  case True
  then have "k mod 2 \<noteq> 1" by presburger
  with True show ?thesis by (simp add: gb_val_def)
next
  case False
  then have "k mod 2 = 1" by presburger
  with False show ?thesis by (simp add: gb_val_def)
qed

lemma update_gaussian_blur_cases: "update_gaussian_blur k = (if even k then k + 1 else k)"
proof (cases "even k")
  case True
  then have "k mod 2 = 0" by presburger
  with True show ?thesis by (simp add: update_gaussian_blur_def)
next
  case False
  then have "k mod 2 \<noteq> 0" by presburger
  with False show ?thesis by (simp add: update_gaussian_blur_def)
qed

lemma odd_coerced: "odd (if even k then k + 1 else k)" for k :: int
  by simp

lemma foldl_update_gaussian_blur_odd:
  "odd g \<Longrightarrow> odd (foldl (\<lambda>gaussian_blur val. update_gaussian_blur val) g vals)"
  by (induction vals arbitrary: g) (simp_all add: update_gaussian_blur_cases)

text \<open>
  Claim C8. For every integer kernel size k the kernel that reaches the Gaussian
  smoothing is odd: an even k becomes k + 1 and an odd k is used as given, both where
  \<^verbatim>\<open>ccqt.py\<close> builds the kernel and where \<^verbatim>\<open>cc.py\<close> stores the slider value; in \<^verbatim>\<open>cc.py\<close> the
  stored value stays odd from its initial 5 through any sequence of slider updates.
\<close>

theorem blur_kernel_odd:
  "odd (gb_val k) \<and> gb_val k = (if even k then k + 1 else k)
   \<and> odd (update_gaussian_blur k) \<and> update_gaussian_blur k = (if even k then k + 1 else k)
   \<and> odd (foldl (\<lambda>gaussian_blur val. update_gaussian_blur val) 5 vals)"
proof -
  have "odd (5::int)" by simp
  then have "odd (foldl (\<lambda>gaussian_blur val. update_gaussian_blur val) 5 vals)"
    by (rule foldl_update_gaussian_blur_odd)
  then show ?thesis
    by (simp add: gb_val_cases update_gaussian_blur_cases)
qed

theorem blur_kernel_odd_witness:
  "gb_val 4 = 5 \<and> gb_val 7 = 7 \<and> update_gaussian_blur 14 = 15
   \<and> foldl (\<lambda>gaussian_blur val. update_gaussian_blur val) 5 [2, 8] = 9"
  using blur_kernel_odd [of 4 "[2, 8]"] blur_kernel_odd [of 7 "[]"] blur_kernel_odd [of 14 "[]"]
  by (simp add: update_gaussian_blur_def)

subsection \<open>Saved event image\<close>





subsection \<open>The plot series\<close>

lemma series_ok_init: "series_ok (plot_manager_init th)"
  by (simp add: series_ok_def plot_manager_init_def)

lemma series_ok_update_data:
  assumes "series_ok pm"
  shows "series_ok (update_data mean_val th pm)"
proof (cases "mean_values pm = []")
  case True
  with assms show ?thesis
    by (simp add: series_ok_def update_data_def)
next
  case False
  then have pos: "0 < length (mean_values pm)" by simp
  from assms have xs: "xvals pm = map int [0..<length (mean_values pm)]"
    by (simp add: series_ok_def)
  with pos have ne: "xvals pm \<noteq> []" by auto
  from xs pos have "last (xvals pm) = int (length (mean_values pm) - 1)"
    by (simp add: last_map last_upt)
  moreover from pos have "int (length (mean_values pm) - 1) + 1 = int (length (mean_values pm))"
    by (cases "length (mean_values pm)") simp_all
  ultimately have "last (xvals pm) + 1 = int (length (mean_values pm))" by simp
  with xs ne show ?thesis
    by (simp add: series_ok_def update_data_def)
qed

lemma series_ok_mark_event: "series_ok pm \<Longrightarrow> series_ok (mark_event filename pm)"
  by (simp add: series_ok_def mark_event_def Let_def)

lemma series_ok_clear_plot: "series_ok (clear_plot pm)"
  by (simp add: series_ok_def clear_plot_def)

lemma series_ok_apply: "series_ok pm \<Longrightarrow> series_ok (apply_plot_op pm op)"
  by (cases op) (simp_all add: series_ok_update_data series_ok_mark_event series_ok_clear_plot)

lemma series_ok_run: "series_ok pm \<Longrightarrow> series_ok (run_plot_ops ops pm)"
  unfolding run_plot_ops_def
  by (induction ops arbitrary: pm) (simp_all add: series_ok_apply)

text \<open>
  Claim C10. After any sequence of \<^verbatim>\<open>update_data\<close>, \<^verbatim>\<open>mark_event\<close> and \<^verbatim>\<open>clear_plot\<close> calls on a
  fresh \<^verbatim>\<open>PlotManager\<close>, the x-values and the mean values have the same length, and the
  x-values are exactly 0, 1, ..., n-1; an append after a clear (or at startup) starts
  again from 0 and every other append adds the last x-value plus one.
\<close>

theorem plot_series_consecutive:
  "length (xvals (run_plot_ops ops (plot_manager_init th)))
     = length (mean_values (run_plot_ops ops (plot_manager_init th)))
   \<and> xvals (run_plot_ops ops (plot_manager_init th))
     = map int [0..<length (mean_values (run_plot_ops ops (plot_manager_init th)))]
   \<and> xvals (update_data v th (clear_plot (run_plot_ops ops (plot_manager_init th)))) = [0]
   \<and> xvals (update_data v th (run_plot_ops ops (plot_manager_init th)))
     = map int [0..<Suc (length (xvals (run_plot_ops ops (plot_manager_init th))))]"
proof -
  let ?pm = "run_plot_ops ops (plot_manager_init th)"
  have ok: "series_ok ?pm"
    by (rule series_ok_run [OF series_ok_init])
  then have xs: "xvals ?pm = map int [0..<length (mean_values ?pm)]"
    by (simp add: series_ok_def)
  then have len: "length (xvals ?pm) = length (mean_values ?pm)"
    by (metis length_map length_upt minus_nat.diff_0)
  have cl: "xvals (update_data v th (clear_plot ?pm)) = [0]"
    by (simp add: update_data_def clear_plot_def)
  have "series_ok (update_data v th ?pm)"
    by (rule series_ok_update_data [OF ok])
  then have "xvals (update_data v th ?pm)
      = map int [0..<length (mean_values (update_data v th ?pm))]"
    by (simp add: series_ok_def)
  moreover have "length (mean_values (update_data v th ?pm)) = Suc (length (xvals ?pm))"
    using len by (simp add: update_data_def Let_def)
  ultimately have up: "xvals (update_data v th ?pm)
      = map int [0..<Suc (length (xvals ?pm))]"
    by simp
  from len xs cl up show ?thesis by blast
qed

theorem plot_series_consecutive_witness:
  "xvals (run_plot_ops [UpdateData 130 128, UpdateData 90 128, MarkEvent ''event_7.png'',
                        ClearPlot, UpdateData 50 128, UpdateData 60 128]
            (plot_manager_init 128)) = [0, 1]"
  using plot_series_consecutive [of "[UpdateData 130 128, UpdateData 90 128,
      MarkEvent ''event_7.png'', ClearPlot, UpdateData 50 128, UpdateData 60 128]" 128 0]
  by (simp add: run_plot_ops_def update_data_def mark_event_def clear_plot_def
      plot_manager_init_def Let_def upt_rec)

subsection \<open>Event markers\<close>
























lemma event_lines_example:
  "event_lines (plot_mgr (run_frames
        [(Plain [], 200, 10), (Plain [], 90, 11), (Plain [], 210, 20)]
        \<lparr>settings = \<lparr>threshold_value = 128, cooldown_time = 5, last_saved_time = 0,
                      prefix = ''event'', save_images = True\<rparr>,
         plot_mgr = plot_manager_init 128, saved_images = Map.empty, log_box = []\<rparr>)) = [0, 2]"
  by (simp add: handle_new_frame_def ccm_fires_def update_data_def mark_event_def
      plot_manager_init_def Let_def)

subsection \<open>Presets\<close>








text \<open>
  A record that lacks a field: the load stops at the missing key with the fields read
  before it already stored in the live state.
\<close>

theorem failed_load_partially_applied:
  "ccqt_load_preset ''partial''
     [''partial.json'' \<mapsto> JsonText (PyDict [(''threshold'', PyInt 2000)])] ccqt_defaults
   = (Raised (KeyError ''low_threshold''), ccqt_defaults\<lparr>threshold := PyInt 2000\<rparr>)
   \<and> snd (ccqt_load_preset ''partial''
         [''partial.json'' \<mapsto> JsonText (PyDict [(''threshold'', PyInt 2000)])] ccqt_defaults)
     \<noteq> ccqt_defaults
   \<and> cc110_load_preset ''partial''
     [''partial.json'' \<mapsto> JsonText (PyDict [(''threshold'', PyInt 2000)])] cc110_defaults
   = (Raised (KeyError ''low_threshold''), cc110_defaults\<lparr>threshold := PyInt 2000\<rparr>)"
  by (simp add: ccqt_load_preset_def cc110_load_preset_def load_with_def
      ccqt_load_assignments_def load_common_def assign_from_def ccqt_defaults_def
      cc110_defaults_def)

lemma exec_first_fails:
  "stmt g = Inl e \<Longrightarrow> exec (stmt # rest) g = (Some e, g)"
  by simp

lemma load_common_first_fails:
  "subscript loaded ''threshold'' = Inl e \<Longrightarrow> exec (load_common loaded @ rest) g = (Some e, g)"
  by (simp add: load_common_def assign_from_def)

lemma load_with_unchanged:
  assumes "files (name @ ''.json'') = None \<or> files (name @ ''.json'') = Some Unreadable
         \<or> files (name @ ''.json'') = Some NotJson
         \<or> (\<exists>loaded e. files (name @ ''.json'') = Some (JsonText loaded)
                \<and> exec (assignments loaded) g = (Some e, g))"
  shows "snd (load_with assignments name files g) = g
       \<and> fst (load_with assignments name files g) \<noteq> Loaded"
  using assms by (auto simp: load_with_def)

text \<open>
  Claim C3, as amended. A load that fails before the first field is stored leaves the
  live parameters unchanged and does not report success: the file is missing (the one
  case that is caught and logged), it cannot be read, it is not JSON, or its top-level
  value has no \<^verbatim>\<open>"threshold"\<close> entry (not an object, or an object without that key).
\<close>

theorem failed_load_before_first_field:
  assumes "files (name @ ''.json'') = None \<or> files (name @ ''.json'') = Some Unreadable
         \<or> files (name @ ''.json'') = Some NotJson
         \<or> (\<exists>loaded e. files (name @ ''.json'') = Some (JsonText loaded)
                \<and> subscript loaded ''threshold'' = Inl e)"
  shows "snd (ccqt_load_preset name files g) = g
       \<and> fst (ccqt_load_preset name files g) \<noteq> Loaded
       \<and> snd (cc110_load_preset name files p) = p
       \<and> fst (cc110_load_preset name files p) \<noteq> Loaded
       \<and> snd (v3cc_load_preset name files g) = g
       \<and> fst (v3cc_load_preset name files g) \<noteq> Loaded"
proof -
  have q: "files (name @ ''.json'') = None \<or> files (name @ ''.json'') = Some Unreadable
         \<or> files (name @ ''.json'') = Some NotJson
         \<or> (\<exists>loaded e. files (name @ ''.json'') = Some (JsonText loaded)
                \<and> exec (ccqt_load_assignments loaded) g = (Some e, g))"
    using assms load_common_first_fails
    unfolding ccqt_load_assignments_def by blast
  have v: "files (name @ ''.json'') = None \<or> files (name @ ''.json'') = Some Unreadable
         \<or> files (name @ ''.json'') = Some NotJson
         \<or> (\<exists>loaded e. files (name @ ''.json'') = Some (JsonText loaded)
                \<and> exec (v3cc_load_assignments loaded) g = (Some e, g))"
    using assms load_common_first_fails
    unfolding v3cc_load_assignments_def by blast
  have c: "files (name @ ''.json'') = None \<or> files (name @ ''.json'') = Some Unreadable
         \<or> files (name @ ''.json'') = Some NotJson
         \<or> (\<exists>loaded e. files (name @ ''.json'') = Some (JsonText loaded)
                \<and> exec (load_common loaded) p = (Some e, p))"
    using assms load_common_first_fails [of _ _ "[]" p] by auto
  from load_with_unchanged
      [where assignments = ccqt_load_assignments and files = files and name = name and g = g, OF q]
    load_with_unchanged
      [where assignments = v3cc_load_assignments and files = files and name = name and g = g, OF v]
    load_with_unchanged
      [where assignments = load_common and files = files and name = name and g = p, OF c]
  show ?thesis
    by (simp add: ccqt_load_preset_def cc110_load_preset_def v3cc_load_preset_def)
qed

theorem failed_load_before_first_field_witness:
  "ccqt_load_preset ''gone'' Map.empty ccqt_defaults = (NotFound, ccqt_defaults)
   \<and> snd (ccqt_load_preset ''list'' [''list.json'' \<mapsto> JsonText (PyList [PyInt 1])]
          ccqt_defaults) = ccqt_defaults
   \<and> snd (cc110_load_preset ''bad'' [''bad.json'' \<mapsto> NotJson] cc110_defaults)
       = cc110_defaults"
  using failed_load_before_first_field [of Map.empty "''gone''" ccqt_defaults cc110_defaults]
    failed_load_before_first_field [of "[''list.json'' \<mapsto> JsonText (PyList [PyInt 1])]"
      "''list''" ccqt_defaults cc110_defaults]
    failed_load_before_first_field [of "[''bad.json'' \<mapsto> NotJson]" "''bad''"
      ccqt_defaults cc110_defaults]
  by (simp add: ccqt_load_preset_def load_with_def)





end
